theory Spec2Isabelle
  imports Main
begin

section \<open>Data model\<close>

text \<open>
  The persisted rows the credit service reads and writes. Credits are integers; a
  timestamp (\<open>Date\<close>) is the integer number of milliseconds since the epoch; a string
  is a list of 8-bit code units. A table is a list of rows keyed by the primary key
  \<open>id\<close>.
\<close>

datatype TierName = Free | Starter | Professional | Enterprise

record TierConfig =
  name :: TierName
  displayName :: string
  monthlyPrice :: int
  monthlyCredits :: int
  rolloverCap :: int

record User =
  tier :: TierName
  creditsBalance :: int
  creditsUsedThisMonth :: int
  monthlyCredits :: int
  rolloverCap :: int
  lastCreditReset :: int

datatype TransactionType = Purchase | Usage | Refund | Monthly_reset | Tier_change

record CreditTransaction =
  userId :: string
  amount :: int
  type :: TransactionType
  description :: string
  jobId :: "string option"

datatype JobStatus = Pending | Queued | Processing | Completed | Failed

record Job =
  userId :: string
  status :: JobStatus
  originalImageUrl :: "string option"
  modelType :: string
  sceneStyle :: string
  quantity :: nat
  creditsReserved :: int
  creditsConsumed :: int
  backgroundPrompt :: string
  inputImages :: "string list"
  imageCount :: nat
  progress :: int
  errorMessage :: "string option"

type_synonym 'row table = "(string \<times> 'row) list"

record db =
  users :: "User table"
  creditTransactions :: "CreditTransaction list"
  jobs :: "Job table"

datatype error =
    UserNotFound string
  | RecordNotFound
  | UniqueConstraint
  | UploadFailed

subsection \<open>Table access\<close>

text \<open>\<open>findUnique\<close> reads the row with the given key; \<open>updateWhere\<close> rewrites the
  columns of the row(s) with that key and leaves every other row alone.\<close>

definition findUnique :: "string \<Rightarrow> 'row table \<Rightarrow> 'row option" where
  "findUnique k t = map_of t k"

definition updateWhere :: "string \<Rightarrow> ('row \<Rightarrow> 'row) \<Rightarrow> 'row table \<Rightarrow> 'row table" where
  "updateWhere k f t = map (\<lambda>(i, r). if i = k then (i, f r) else (i, r)) t"

definition createTransaction :: "CreditTransaction \<Rightarrow> db \<Rightarrow> db" where
  "createTransaction t d = d\<lparr>creditTransactions := creditTransactions d @ [t]\<rparr>"

subsection \<open>Numbers in template strings\<close>

fun digits :: "nat \<Rightarrow> string" where
  "digits n =
     (if n < 10 then [''0123456789'' ! n]
      else digits (n div 10) @ [''0123456789'' ! (n mod 10)])"

declare digits.simps [simp del]

definition toString :: "int \<Rightarrow> string" where
  "toString i = (if i < 0 then CHR ''-'' # digits (nat (- i)) else digits (nat i))"

section \<open>lib/config/pricing.ts\<close>

definition PRICING_TIERS :: "TierName \<Rightarrow> TierConfig" where
  "PRICING_TIERS t = (case t of
      Free \<Rightarrow> \<lparr>name = Free, displayName = ''Free'', monthlyPrice = 0,
                monthlyCredits = 5, rolloverCap = 0\<rparr>
    | Starter \<Rightarrow> \<lparr>name = Starter, displayName = ''Starter'', monthlyPrice = 49,
                monthlyCredits = 100, rolloverCap = 50\<rparr>
    | Professional \<Rightarrow> \<lparr>name = Professional, displayName = ''Professional'',
                monthlyPrice = 149, monthlyCredits = 400, rolloverCap = 200\<rparr>
    | Enterprise \<Rightarrow> \<lparr>name = Enterprise, displayName = ''Enterprise'',
                monthlyPrice = 449, monthlyCredits = 2000, rolloverCap = 500\<rparr>)"

definition getTierConfig :: "TierName \<Rightarrow> TierConfig" where
  "getTierConfig tierName = PRICING_TIERS tierName"

definition calculateRollover :: "int \<Rightarrow> int \<Rightarrow> int \<Rightarrow> int" where
  "calculateRollover currentBalance monthlyCredits' rolloverCap' =
     (let unusedCredits = max 0 currentBalance;
          rolloverAmount = min unusedCredits rolloverCap'
      in monthlyCredits' + rolloverAmount)"

section \<open>lib/services/credit-service.ts\<close>

record ResetResult =
  success :: bool
  previousBalance :: int
  newBalance :: int
  rolledOverAmount :: int
  monthlyCredits :: int

record DeductResult =
  success :: bool
  newBalance :: int
  insufficientCredits :: bool

text \<open>\<open>resetMonthlyCredits\<close>: \<open>now\<close> is the value of \<open>new Date()\<close>.\<close>

definition resetMonthlyCredits :: "int \<Rightarrow> string \<Rightarrow> db \<Rightarrow> error + (db \<times> ResetResult)" where
  "resetMonthlyCredits now uid d =
     (case findUnique uid (users d) of
        None \<Rightarrow> Inl (UserNotFound uid)
      | Some user \<Rightarrow>
          let tierConfig = getTierConfig (tier user);
              previousBalance' = creditsBalance user;
              newBalance' = calculateRollover previousBalance'
                 (TierConfig.monthlyCredits tierConfig) (TierConfig.rolloverCap tierConfig);
              rolledOverAmount' = min (max 0 previousBalance') (TierConfig.rolloverCap tierConfig);
              d1 = d\<lparr>users := updateWhere uid
                     (\<lambda>u. u\<lparr>creditsBalance := newBalance',
                            creditsUsedThisMonth := 0,
                            lastCreditReset := now,
                            User.monthlyCredits := TierConfig.monthlyCredits tierConfig,
                            User.rolloverCap := TierConfig.rolloverCap tierConfig\<rparr>)
                     (users d)\<rparr>;
              d2 = createTransaction
                     \<lparr>CreditTransaction.userId = uid,
                      amount = TierConfig.monthlyCredits tierConfig,
                      type = Monthly_reset,
                      description = ''Monthly credit reset: ''
                         @ toString (TierConfig.monthlyCredits tierConfig)
                         @ '' new credits + '' @ toString rolledOverAmount'
                         @ '' rolled over (cap: ''
                         @ toString (TierConfig.rolloverCap tierConfig) @ '')'',
                      jobId = None\<rparr> d1
          in Inr (d2, \<lparr>ResetResult.success = True,
                       previousBalance = previousBalance',
                       newBalance = newBalance',
                       rolledOverAmount = rolledOverAmount',
                       monthlyCredits = TierConfig.monthlyCredits tierConfig\<rparr>))"

text \<open>\<open>updateUserTier\<close>: the row update fails when there is no such user, before any
  transaction is written.\<close>

definition updateUserTier :: "string \<Rightarrow> TierName \<Rightarrow> db \<Rightarrow> error + db" where
  "updateUserTier uid newTier d =
     (let tierConfig = getTierConfig newTier in
      case findUnique uid (users d) of
        None \<Rightarrow> Inl RecordNotFound
      | Some _ \<Rightarrow>
          let d1 = d\<lparr>users := updateWhere uid
                     (\<lambda>u. u\<lparr>tier := newTier,
                            User.monthlyCredits := TierConfig.monthlyCredits tierConfig,
                            User.rolloverCap := TierConfig.rolloverCap tierConfig\<rparr>)
                     (users d)\<rparr>;
              d2 = createTransaction
                     \<lparr>CreditTransaction.userId = uid,
                      amount = 0,
                      type = Tier_change,
                      description = ''Tier updated to '' @ displayName tierConfig @ '' (''
                         @ toString (TierConfig.monthlyCredits tierConfig)
                         @ '' credits/month, ''
                         @ toString (TierConfig.rolloverCap tierConfig) @ '' rollover cap)'',
                      jobId = None\<rparr> d1
          in Inr d2)"

text \<open>\<open>addAlaCarteCredits\<close>: the description starts with the capital A with grave
  accent, the code unit \<open>0xC0\<close>.\<close>

definition addAlaCarteCredits :: "string \<Rightarrow> int \<Rightarrow> string \<Rightarrow> db \<Rightarrow> error + db" where
  "addAlaCarteCredits uid credits stripePaymentIntentId d =
     (case findUnique uid (users d) of
        None \<Rightarrow> Inl (UserNotFound uid)
      | Some user \<Rightarrow>
          let newBalance' = creditsBalance user + credits;
              d1 = d\<lparr>users := updateWhere uid
                     (\<lambda>u. u\<lparr>creditsBalance := newBalance'\<rparr>) (users d)\<rparr>;
              d2 = createTransaction
                     \<lparr>CreditTransaction.userId = uid,
                      amount = credits,
                      type = Purchase,
                      description = [CHR 0xC0] @ '' la carte purchase: ''
                         @ toString credits @ '' credits (Payment: ''
                         @ stripePaymentIntentId @ '')'',
                      jobId = None\<rparr> d1
          in Inr d2)"

definition deductCredits ::
  "string \<Rightarrow> int \<Rightarrow> string \<Rightarrow> string \<Rightarrow> db \<Rightarrow> error + (db \<times> DeductResult)" where
  "deductCredits uid amt jid descr d =
     (case findUnique uid (users d) of
        None \<Rightarrow> Inl (UserNotFound uid)
      | Some user \<Rightarrow>
          if creditsBalance user < amt
          then Inr (d, \<lparr>DeductResult.success = False,
                        newBalance = creditsBalance user,
                        insufficientCredits = True\<rparr>)
          else
            let newBalance' = creditsBalance user - amt;
                newUsedThisMonth = creditsUsedThisMonth user + amt;
                d1 = d\<lparr>users := updateWhere uid
                       (\<lambda>u. u\<lparr>creditsBalance := newBalance',
                              creditsUsedThisMonth := newUsedThisMonth\<rparr>)
                       (users d)\<rparr>;
                d2 = createTransaction
                       \<lparr>CreditTransaction.userId = uid, amount = - amt, type = Usage,
                        description = descr, jobId = Some jid\<rparr> d1
            in Inr (d2, \<lparr>DeductResult.success = True,
                         newBalance = newBalance',
                         insufficientCredits = False\<rparr>))"

definition refundCredits :: "string \<Rightarrow> int \<Rightarrow> string \<Rightarrow> string \<Rightarrow> db \<Rightarrow> error + db" where
  "refundCredits uid amt jid reason d =
     (case findUnique uid (users d) of
        None \<Rightarrow> Inl (UserNotFound uid)
      | Some user \<Rightarrow>
          let newBalance' = creditsBalance user + amt;
              newUsedThisMonth = max 0 (creditsUsedThisMonth user - amt);
              d1 = d\<lparr>users := updateWhere uid
                     (\<lambda>u. u\<lparr>creditsBalance := newBalance',
                            creditsUsedThisMonth := newUsedThisMonth\<rparr>)
                     (users d)\<rparr>;
              d2 = createTransaction
                     \<lparr>CreditTransaction.userId = uid, amount = amt, type = Refund,
                      description = ''Credit refund: '' @ reason, jobId = Some jid\<rparr> d1
          in Inr d2)"

text \<open>\<open>getUsersNeedingReset\<close>: \<open>oneMonthAgo\<close> is the cutoff the function computes from
  the clock by calendar arithmetic (\<open>setMonth(getMonth() - 1)\<close>); the query keeps the
  users last reset at or before it whose tier is not the free one.\<close>

definition getUsersNeedingReset :: "int \<Rightarrow> db \<Rightarrow> string list" where
  "getUsersNeedingReset oneMonthAgo d =
     map fst (filter (\<lambda>(i, u). lastCreditReset u \<le> oneMonthAgo \<and> tier u \<noteq> Free) (users d))"

section \<open>Sequences of ledger operations\<close>

text \<open>One call of the credit service on an account, and the database after a sequence of
  such calls made one after the other. A call that throws (unknown account) has written
  nothing, so the database is the one before the call.\<close>

datatype LedgerOp =
    Reserve int string string
  | RefundOp int string string
  | PurchaseOp int string
  | MonthlyReset int
  | TierChange TierName

definition applyOp :: "string \<times> LedgerOp \<Rightarrow> db \<Rightarrow> db" where
  "applyOp kop d = (case kop of (uid, op) \<Rightarrow> (case op of
       Reserve amt jid descr \<Rightarrow>
         (case deductCredits uid amt jid descr d of Inl _ \<Rightarrow> d | Inr (d', _) \<Rightarrow> d')
     | RefundOp amt jid reason \<Rightarrow>
         (case refundCredits uid amt jid reason d of Inl _ \<Rightarrow> d | Inr d' \<Rightarrow> d')
     | PurchaseOp credits payment \<Rightarrow>
         (case addAlaCarteCredits uid credits payment d of Inl _ \<Rightarrow> d | Inr d' \<Rightarrow> d')
     | MonthlyReset now \<Rightarrow>
         (case resetMonthlyCredits now uid d of Inl _ \<Rightarrow> d | Inr (d', _) \<Rightarrow> d')
     | TierChange newTier \<Rightarrow>
         (case updateUserTier uid newTier d of Inl _ \<Rightarrow> d | Inr d' \<Rightarrow> d')))"

fun runOps :: "(string \<times> LedgerOp) list \<Rightarrow> db \<Rightarrow> db" where
  "runOps [] d = d"
| "runOps (kop # ops) d = runOps ops (applyOp kop d)"

text \<open>The sum of the signed amounts of the transactions recorded for an account, and
  the ledger equation: the account exists and its balance is that sum.\<close>

definition transactionSum :: "string \<Rightarrow> db \<Rightarrow> int" where
  "transactionSum uid d =
     sum_list (map amount
       (filter (\<lambda>t. CreditTransaction.userId t = uid) (creditTransactions d)))"

definition ledgerBalanced :: "string \<Rightarrow> db \<Rightarrow> bool" where
  "ledgerBalanced uid d =
     (case findUnique uid (users d) of
        None \<Rightarrow> False
      | Some u \<Rightarrow> creditsBalance u = transactionSum uid d)"

text \<open>A monthly reset of the account cuts nothing off when the balance it finds lies
  between zero and the rollover cap of the account's tier. \<open>resetsKeepAll\<close> asks this of
  every reset of the account in a sequence, each at the database it runs on.\<close>

definition resetKeepsAll :: "string \<Rightarrow> string \<times> LedgerOp \<Rightarrow> db \<Rightarrow> bool" where
  "resetKeepsAll uid kop d = (case kop of
       (k, MonthlyReset _) \<Rightarrow>
         (case findUnique uid (users d) of
            None \<Rightarrow> True
          | Some u \<Rightarrow> k \<noteq> uid \<or>
              (0 \<le> creditsBalance u
               \<and> creditsBalance u \<le> TierConfig.rolloverCap (getTierConfig (tier u))))
     | _ \<Rightarrow> True)"

fun resetsKeepAll :: "string \<Rightarrow> (string \<times> LedgerOp) list \<Rightarrow> db \<Rightarrow> bool" where
  "resetsKeepAll uid [] d = True"
| "resetsKeepAll uid (kop # ops) d =
     (resetKeepsAll uid kop d \<and> resetsKeepAll uid ops (applyOp kop d))"

section \<open>Concurrent calls of deductCredits\<close>

text \<open>
  \<open>deductCredits\<close> awaits three database calls in turn: the read of the user row, the
  update of the row, the insert of the transaction. Each database call is atomic; between
  two of them another request may run. A call in progress is its arguments and the point
  it has reached, with the locals it carries from there:
  \<^item> \<open>AtFindUnique\<close>: the read is still to be made;
  \<^item> \<open>AtUserUpdate newBalance newUsedThisMonth\<close>: the read and the balance test are done,
    the row update is still to be made;
  \<^item> \<open>AtTransactionCreate newBalance\<close>: the row is written, the transaction is still to
    be inserted;
  \<^item> \<open>Returned result\<close>, \<open>Thrown error\<close>: the call is over.
\<close>

record DeductCall =
  callUserId :: string
  callAmount :: int
  callJobId :: string
  callDescription :: string

datatype DeductPoint =
    AtFindUnique
  | AtUserUpdate int int
  | AtTransactionCreate int
  | Returned DeductResult
  | Thrown error

definition deductStep :: "DeductCall \<Rightarrow> DeductPoint \<Rightarrow> db \<Rightarrow> DeductPoint \<times> db" where
  "deductStep c pt d = (case pt of
       AtFindUnique \<Rightarrow>
         (case findUnique (callUserId c) (users d) of
            None \<Rightarrow> (Thrown (UserNotFound (callUserId c)), d)
          | Some user \<Rightarrow>
              if creditsBalance user < callAmount c
              then (Returned \<lparr>DeductResult.success = False,
                               newBalance = creditsBalance user,
                               insufficientCredits = True\<rparr>, d)
              else (AtUserUpdate (creditsBalance user - callAmount c)
                                 (creditsUsedThisMonth user + callAmount c), d))
     | AtUserUpdate newBalance' newUsedThisMonth \<Rightarrow>
         (case findUnique (callUserId c) (users d) of
            None \<Rightarrow> (Thrown RecordNotFound, d)
          | Some _ \<Rightarrow>
              (AtTransactionCreate newBalance',
               d\<lparr>users := updateWhere (callUserId c)
                    (\<lambda>u. u\<lparr>creditsBalance := newBalance',
                           creditsUsedThisMonth := newUsedThisMonth\<rparr>)
                    (users d)\<rparr>))
     | AtTransactionCreate newBalance' \<Rightarrow>
         (Returned \<lparr>DeductResult.success = True,
                    newBalance = newBalance',
                    insufficientCredits = False\<rparr>,
          createTransaction
            \<lparr>CreditTransaction.userId = callUserId c, amount = - callAmount c,
             type = Usage, description = callDescription c,
             jobId = Some (callJobId c)\<rparr> d)
     | Returned r \<Rightarrow> (Returned r, d)
     | Thrown e \<Rightarrow> (Thrown e, d))"

text \<open>A schedule names, step by step, the call that makes its next database call.\<close>

fun runSchedule ::
  "nat list \<Rightarrow> (DeductCall \<times> DeductPoint) list \<times> db \<Rightarrow> (DeductCall \<times> DeductPoint) list \<times> db"
  where
  "runSchedule [] s = s"
| "runSchedule (i # sched) (calls, d) =
     (if i < length calls
      then (case calls ! i of (c, pt) \<Rightarrow>
              (case deductStep c pt d of (pt', d') \<Rightarrow>
                 runSchedule sched (calls[i := (c, pt')], d')))
      else runSchedule sched (calls, d))"

text \<open>The amounts of the calls that have reported success.\<close>

definition succeededAmounts :: "(DeductCall \<times> DeductPoint) list \<Rightarrow> int list" where
  "succeededAmounts calls =
     map (\<lambda>(c, pt). callAmount c)
       (filter (\<lambda>(c, pt). case pt of Returned r \<Rightarrow> DeductResult.success r | _ \<Rightarrow> False) calls)"

text \<open>The same calls made one after the other, each run to its end before the next
  starts.\<close>

fun deductAll :: "DeductCall list \<Rightarrow> db \<Rightarrow> (DeductCall \<times> DeductPoint) list \<times> db" where
  "deductAll [] d = ([], d)"
| "deductAll (c # cs) d =
     (case deductCredits (callUserId c) (callAmount c) (callJobId c) (callDescription c) d of
        Inl e \<Rightarrow> (case deductAll cs d of (rs, d') \<Rightarrow> ((c, Thrown e) # rs, d'))
      | Inr (d1, r) \<Rightarrow> (case deductAll cs d1 of (rs, d') \<Rightarrow> ((c, Returned r) # rs, d')))"

section \<open>The job submission handler\<close>

text \<open>
  The request as the handler sees it: the id of the session's user when there is a
  session, the files of the form field \<open>images\<close>, and the form field
  \<open>backgroundPrompt\<close> when present.
\<close>

record UploadedFile =
  fileName :: string
  fileType :: string
  fileBytes :: "nat list"

record Request =
  sessionUser :: "string option"
  images :: "UploadedFile list"
  backgroundPromptField :: "string option"

text \<open>
  What the handler takes from outside the repository's sources at hand:
  \<^item> \<open>calculateBatchCredits\<close>, of \<open>@/lib/pricing\<close>, whose definition is not among them;
  \<^item> \<open>discountPercent\<close>, the discount of \<open>getBatchDiscountInfo\<close> (same module) times
    100 and rounded, or 0 when there is none; it only appears in a description;
  \<^item> \<open>randomUUID\<close>, the job id drawn for this request;
  \<^item> \<open>uploadBuffer\<close>, the storage service: the URL of the stored object, or \<open>None\<close>
    when the upload throws;
  \<^item> \<open>addJob\<close>, the queue service: whether the job was accepted (\<open>False\<close>: it throws).
\<close>

record Collaborators =
  calculateBatchCredits :: "nat \<Rightarrow> int"
  discountPercent :: "nat \<Rightarrow> int"
  randomUUID :: string
  uploadBuffer :: "nat list \<Rightarrow> string \<Rightarrow> string \<Rightarrow> string option"
  addJob :: "string \<Rightarrow> string \<Rightarrow> string \<Rightarrow> string list \<Rightarrow> bool"

datatype ResponseBody =
    ErrorBody string
  | InsufficientCreditsBody int int
  | JobBody string JobStatus nat int

datatype Response = Response ResponseBody nat

text \<open>Modelled from the spec: \<open>hasEnoughCredits\<close> of \<open>@/lib/pricing\<close> is not among the
  sources; the specification gives it as the pure predicate \<open>balance \<ge> required\<close>.\<close>

definition hasEnoughCredits :: "int \<Rightarrow> int \<Rightarrow> bool" where
  "hasEnoughCredits balance required = (required \<le> balance)"

text \<open>\<open>trim\<close> removes white space at both ends; among the 8-bit code units the white
  space is tab, line feed, vertical tab, form feed, carriage return, space and the
  no-break space.\<close>

definition isWhiteSpace :: "char \<Rightarrow> bool" where
  "isWhiteSpace c = (c \<in> set [CHR 0x09, CHR 0x0A, CHR 0x0B, CHR 0x0C, CHR 0x0D, CHR 0x20, CHR 0xA0])"

definition trim :: "string \<Rightarrow> string" where
  "trim s = rev (dropWhile isWhiteSpace (rev (dropWhile isWhiteSpace s)))"

text \<open>\<open>file.name.split(".").pop() || "jpg"\<close>: what follows the last dot of the name (the
  whole name when it has no dot), or \<open>jpg\<close> when that is empty.\<close>

definition extension :: "string \<Rightarrow> string" where
  "extension nm =
     (let ext = rev (takeWhile (\<lambda>c. c \<noteq> CHR ''.'') (rev nm))
      in if ext = [] then ''jpg'' else ext)"

text \<open>The upload loop, from index \<open>i\<close> on: the URLs in order, or \<open>None\<close> as soon as an
  upload throws.\<close>

fun uploadImages :: "Collaborators \<Rightarrow> string \<Rightarrow> nat \<Rightarrow> UploadedFile list \<Rightarrow> string list option" where
  "uploadImages env jid i [] = Some []"
| "uploadImages env jid i (file # files) =
     (let filename = jid @ ''_input_'' @ toString (int i) @ ''.'' @ extension (fileName file)
      in case uploadBuffer env (fileBytes file) filename (fileType file) of
           None \<Rightarrow> None
         | Some url \<Rightarrow>
             (case uploadImages env jid (i + 1) files of
                None \<Rightarrow> None
              | Some urls \<Rightarrow> Some (url # urls)))"

definition createJob :: "string \<Rightarrow> Job \<Rightarrow> db \<Rightarrow> error + db" where
  "createJob jid j d =
     (case findUnique jid (jobs d) of
        Some _ \<Rightarrow> Inl UniqueConstraint
      | None \<Rightarrow> Inr (d\<lparr>jobs := jobs d @ [(jid, j)]\<rparr>))"

definition updateJob :: "string \<Rightarrow> (Job \<Rightarrow> Job) \<Rightarrow> db \<Rightarrow> error + db" where
  "updateJob jid f d =
     (case findUnique jid (jobs d) of
        None \<Rightarrow> Inl RecordNotFound
      | Some _ \<Rightarrow> Inr (d\<lparr>jobs := updateWhere jid f (jobs d)\<rparr>))"

text \<open>The response of the outer \<open>catch\<close>: whatever was written before the throw stays
  written.\<close>

definition jobCreationError :: Response where
  "jobCreationError = Response (ErrorBody ''An error occurred while creating the job'') 500"

definition POST :: "Collaborators \<Rightarrow> Request \<Rightarrow> db \<Rightarrow> db \<times> Response" where
  "POST env req d =
     (case sessionUser req of
        None \<Rightarrow> (d, Response (ErrorBody ''Unauthorized'') 401)
      | Some sessionUserId \<Rightarrow>
     if images req = [] then (d, Response (ErrorBody ''No images provided'') 400)
     else
     (case backgroundPromptField req of
        None \<Rightarrow> (d, Response (ErrorBody ''Background prompt is required'') 400)
      | Some prompt \<Rightarrow>
     if prompt = [] \<or> length (trim prompt) = 0
       then (d, Response (ErrorBody ''Background prompt is required'') 400)
     else if length (images req) > 100
       then (d, Response (ErrorBody ''Maximum 100 images per job'') 400)
     else
     (case findUnique sessionUserId (users d) of
        None \<Rightarrow> (d, Response (ErrorBody ''User not found'') 404)
      | Some user \<Rightarrow>
     let totalCredits = calculateBatchCredits env (length (images req));
         discount = discountPercent env (length (images req))
     in
     if \<not> hasEnoughCredits (creditsBalance user) totalCredits
       then (d, Response (InsufficientCreditsBody totalCredits (creditsBalance user)) 402)
     else
     let jid = randomUUID env in
     (case uploadImages env jid 0 (images req) of
        None \<Rightarrow> (d, jobCreationError)
      | Some imageUrls \<Rightarrow>
     (case deductCredits sessionUserId totalCredits jid
             (''Reserved '' @ toString totalCredits @ '' credits for ''
                @ toString (int (length (images req))) @ '' images''
                @ (if discount > 0 then '' ('' @ toString discount @ ''% discount)'' else []))
             d of
        Inl _ \<Rightarrow> (d, jobCreationError)
      | Inr (d1, deductResult) \<Rightarrow>
     if \<not> DeductResult.success deductResult
       then (d1, Response (InsufficientCreditsBody totalCredits
                             (DeductResult.newBalance deductResult)) 402)
     else
     let job = \<lparr>Job.userId = sessionUserId,
                status = Pending,
                originalImageUrl = (case imageUrls of [] \<Rightarrow> None | url # _ \<Rightarrow> Some url),
                modelType = ''realistic'',
                sceneStyle = prompt,
                quantity = length (images req),
                creditsReserved = totalCredits,
                creditsConsumed = 0,
                backgroundPrompt = prompt,
                inputImages = imageUrls,
                imageCount = length (images req),
                progress = 0,
                errorMessage = None\<rparr>
     in
     (case createJob jid job d1 of
        Inl _ \<Rightarrow> (d1, jobCreationError)
      | Inr d2 \<Rightarrow>
     if addJob env jid sessionUserId prompt imageUrls
       then (d2, Response (JobBody jid (status job) (quantity job) (creditsReserved job)) 201)
     else
     (case refundCredits sessionUserId totalCredits jid
             ''Failed to queue job for processing'' d2 of
        Inl _ \<Rightarrow> (d2, jobCreationError)
      | Inr d3 \<Rightarrow>
     (case updateJob jid
             (\<lambda>j. j\<lparr>status := Failed,
                    errorMessage := Some ''Failed to queue job for processing''\<rparr>) d3 of
        Inl _ \<Rightarrow> (d3, jobCreationError)
      | Inr d4 \<Rightarrow>
          (d4, Response (ErrorBody ''Failed to queue job for processing'') 500)))))))))"

section \<open>Example rows\<close>

text \<open>A starter-tier account with the given balance and usage counter, and a database
  holding that single account under the key \<open>u1\<close>.\<close>

abbreviation starterUser :: "int \<Rightarrow> int \<Rightarrow> User" where
  "starterUser b used \<equiv>
     \<lparr>tier = Starter, creditsBalance = b, creditsUsedThisMonth = used,
      User.monthlyCredits = 100, User.rolloverCap = 50, lastCreditReset = 0\<rparr>"

abbreviation oneUserDb :: "User \<Rightarrow> CreditTransaction list \<Rightarrow> db" where
  "oneUserDb u ts \<equiv> \<lparr>users = [(''u1'', u)], creditTransactions = ts, jobs = []\<rparr>"

text \<open>A reservation of 60 credits on the account \<open>u1\<close> for the given job.\<close>

abbreviation call60 :: "string \<Rightarrow> DeductCall" where
  "call60 j \<equiv> \<lparr>callUserId = ''u1'', callAmount = 60, callJobId = j, callDescription = ''x''\<rparr>"

text \<open>A request with two images and a prompt from the user \<open>u1\<close>; collaborators that
  price every batch at 25 credits, store every upload and refuse the job.\<close>

abbreviation twoImages :: Request where
  "twoImages \<equiv>
     \<lparr>sessionUser = Some ''u1'',
      images = [\<lparr>fileName = ''a.png'', fileType = ''image/png'', fileBytes = [1, 2]\<rparr>,
                \<lparr>fileName = ''b'', fileType = ''image/jpeg'', fileBytes = [3]\<rparr>],
      backgroundPromptField = Some ''beach''\<rparr>"

abbreviation queueDown :: Collaborators where
  "queueDown \<equiv>
     \<lparr>calculateBatchCredits = (\<lambda>n. 25),
      discountPercent = (\<lambda>n. 0),
      randomUUID = ''j1'',
      uploadBuffer = (\<lambda>bytes filename mime. Some (''s3/'' @ filename)),
      addJob = (\<lambda>jid uid prompt urls. False)\<rparr>"

section \<open>Table lemmas\<close>

lemma findUnique_updateWhere:
  "findUnique k' (updateWhere k f t) =
     (if k' = k then map_option f (findUnique k t) else findUnique k' t)"
  unfolding findUnique_def updateWhere_def
  by (induction t) auto

lemma users_createTransaction [simp]: "users (createTransaction t d) = users d"
  by (simp add: createTransaction_def)

lemma jobs_createTransaction [simp]: "jobs (createTransaction t d) = jobs d"
  by (simp add: createTransaction_def)

lemma creditTransactions_createTransaction [simp]:
  "creditTransactions (createTransaction t d) = creditTransactions d @ [t]"
  by (simp add: createTransaction_def)

section \<open>Evaluation\<close>

lemmas eval_defs =
  findUnique_def updateWhere_def createTransaction_def Let_def
  getTierConfig_def PRICING_TIERS_def calculateRollover_def

section \<open>Reserving credits\<close>

text \<open>
  C1. For an existing account, \<open>deductCredits\<close> reports success exactly when the balance
  is at least the amount. On success the balance goes down by the amount,
  \<open>creditsUsedThisMonth\<close> goes up by it, and one \<open>usage\<close> transaction of minus the amount,
  tagged with the job id, is appended. On failure the result carries the current balance
  and the database is unchanged.
\<close>

theorem deductCredits_spec:
  assumes "findUnique uid (users d) = Some u" and "0 < amt"
  shows "\<exists>d' r. deductCredits uid amt jid descr d = Inr (d', r)
           \<and> (DeductResult.success r \<longleftrightarrow> amt \<le> creditsBalance u)
           \<and> (amt \<le> creditsBalance u \<longrightarrow>
                 findUnique uid (users d') =
                   Some (u\<lparr>creditsBalance := creditsBalance u - amt,
                           creditsUsedThisMonth := creditsUsedThisMonth u + amt\<rparr>)
               \<and> creditTransactions d' = creditTransactions d @
                   [\<lparr>CreditTransaction.userId = uid, amount = - amt, type = Usage,
                     description = descr, jobId = Some jid\<rparr>]
               \<and> DeductResult.newBalance r = creditsBalance u - amt)
           \<and> (creditsBalance u < amt \<longrightarrow>
                 d' = d \<and> DeductResult.newBalance r = creditsBalance u)"
  using assms
  by (auto simp: deductCredits_def Let_def findUnique_updateWhere)

theorem deductCredits_spec_witness:
  "findUnique ''u1'' (users (oneUserDb (starterUser 100 3) [])) = Some (starterUser 100 3)
   \<and> (0::int) < 25 \<and> (25::int) \<le> creditsBalance (starterUser 100 3)
   \<and> (\<exists>d' r. deductCredits ''u1'' 25 ''j1'' ''x'' (oneUserDb (starterUser 100 3) []) = Inr (d', r)
         \<and> DeductResult.success r
         \<and> findUnique ''u1'' (users d') = Some (starterUser 75 28)
         \<and> map amount (creditTransactions d') = [- 25])"
proof -
  have h: "findUnique ''u1'' (users (oneUserDb (starterUser 100 3) [])) = Some (starterUser 100 3)"
    by (simp add: findUnique_def)
  have p: "(0::int) < 25" by simp
  show ?thesis
    using h deductCredits_spec [OF h p, of "''j1''" "''x''"] by auto
qed

section \<open>Refunding credits\<close>

text \<open>
  C5. For an existing account and an amount above zero, \<open>refundCredits\<close> always
  succeeds, also when \<open>creditsUsedThisMonth\<close> is below the amount: the balance goes up
  by the amount, \<open>creditsUsedThisMonth\<close> is brought down to
  \<open>max 0 (creditsUsedThisMonth - amount)\<close>, floored at zero and never negative, and one
  \<open>refund\<close> transaction of plus the amount, tagged with the job id, is appended.
\<close>

theorem refundCredits_spec:
  assumes "findUnique uid (users d) = Some u" and "0 < amt"
  shows "\<exists>d'. refundCredits uid amt jid reason d = Inr d'
           \<and> findUnique uid (users d') =
                Some (u\<lparr>creditsBalance := creditsBalance u + amt,
                        creditsUsedThisMonth := max 0 (creditsUsedThisMonth u - amt)\<rparr>)
           \<and> 0 \<le> max 0 (creditsUsedThisMonth u - amt)
           \<and> creditTransactions d' = creditTransactions d @
                [\<lparr>CreditTransaction.userId = uid, amount = amt, type = Refund,
                  description = ''Credit refund: '' @ reason, jobId = Some jid\<rparr>]"
  using assms
  by (auto simp: refundCredits_def Let_def findUnique_updateWhere)

theorem refundCredits_spec_witness:
  "findUnique ''u1'' (users (oneUserDb (starterUser 75 2) [])) = Some (starterUser 75 2)
   \<and> (0::int) < 25
   \<and> (\<exists>d'. refundCredits ''u1'' 25 ''j1'' ''r'' (oneUserDb (starterUser 75 2) []) = Inr d'
         \<and> findUnique ''u1'' (users d') = Some (starterUser 100 0)
         \<and> map amount (creditTransactions d') = [25])"
proof -
  have h: "findUnique ''u1'' (users (oneUserDb (starterUser 75 2) [])) = Some (starterUser 75 2)"
    by (simp add: findUnique_def)
  have p: "(0::int) < 25" by simp
  show ?thesis
    using h refundCredits_spec [OF h p, of "''j1''" "''r''"] by auto
qed

text \<open>With amounts above zero the usage counter never becomes negative: the reset
  zeroes it, a reservation adds to it, a refund floors it at zero.\<close>

lemma deductCredits_used_nonneg:
  assumes "deductCredits uid amt jid descr d = Inr (d', r)" and "0 < amt"
    and "findUnique k (users d) = Some u" and "0 \<le> creditsUsedThisMonth u"
  shows "\<exists>u'. findUnique k (users d') = Some u' \<and> 0 \<le> creditsUsedThisMonth u'"
  using assms
  by (auto simp: deductCredits_def Let_def findUnique_updateWhere
           split: option.splits if_splits)

lemma refundCredits_used_nonneg:
  assumes "refundCredits uid amt jid reason d = Inr d'"
    and "findUnique k (users d) = Some u" and "0 \<le> creditsUsedThisMonth u"
  shows "\<exists>u'. findUnique k (users d') = Some u' \<and> 0 \<le> creditsUsedThisMonth u'"
  using assms
  by (auto simp: refundCredits_def Let_def findUnique_updateWhere split: option.splits)

text \<open>
  C6. For an account whose usage counter is not negative (as the data model requires)
  and an amount above zero that the balance covers, \<open>deductCredits\<close> succeeds and a
  following \<open>refundCredits\<close> of the same amount restores the account row, so the balance
  and \<open>creditsUsedThisMonth\<close> are exactly what they were before the reservation.
\<close>

theorem deduct_refund_inverse:
  assumes "findUnique uid (users d) = Some u" and "0 < amt"
    and "amt \<le> creditsBalance u" and "0 \<le> creditsUsedThisMonth u"
  shows "\<exists>d1 r d2. deductCredits uid amt jid descr d = Inr (d1, r)
           \<and> DeductResult.success r
           \<and> refundCredits uid amt jid reason d1 = Inr d2
           \<and> findUnique uid (users d2) = Some u
           \<and> (\<exists>u2. findUnique uid (users d2) = Some u2
                  \<and> creditsBalance u2 = creditsBalance u
                  \<and> creditsUsedThisMonth u2 = creditsUsedThisMonth u)"
  using assms
  by (auto simp: deductCredits_def refundCredits_def Let_def findUnique_updateWhere)

theorem deduct_refund_inverse_witness:
  "findUnique ''u1'' (users (oneUserDb (starterUser 100 3) [])) = Some (starterUser 100 3)
   \<and> (0::int) < 25 \<and> 25 \<le> creditsBalance (starterUser 100 3)
   \<and> 0 \<le> creditsUsedThisMonth (starterUser 100 3)
   \<and> (\<exists>d1 r d2. deductCredits ''u1'' 25 ''j1'' ''x'' (oneUserDb (starterUser 100 3) []) = Inr (d1, r)
         \<and> refundCredits ''u1'' 25 ''j1'' ''y'' d1 = Inr d2
         \<and> findUnique ''u1'' (users d2) = Some (starterUser 100 3))"
proof -
  have h: "findUnique ''u1'' (users (oneUserDb (starterUser 100 3) [])) = Some (starterUser 100 3)"
    by (simp add: findUnique_def)
  have p: "(0::int) < 25" by simp
  have q: "25 \<le> creditsBalance (starterUser 100 3)" by simp
  have n: "0 \<le> creditsUsedThisMonth (starterUser 100 3)" by simp
  show ?thesis
    using h deduct_refund_inverse [OF h p q n, of "''j1''" "''x''" "''y''"] by auto
qed

section \<open>Monthly reset\<close>

text \<open>
  C3. For an existing account, \<open>resetMonthlyCredits\<close> computes the rollover
  \<open>min (max previousBalance 0) rolloverCap\<close> and sets the balance to
  \<open>monthlyCredits + rollover\<close>, where \<open>monthlyCredits\<close> and \<open>rolloverCap\<close> are those of the
  account's tier (the reset also writes them to the account row); it sets
  \<open>creditsUsedThisMonth\<close> to 0 and \<open>lastCreditReset\<close> to the current time, and appends
  exactly one \<open>monthly_reset\<close> transaction of amount \<open>monthlyCredits\<close>. With balance 10,
  monthlyCredits 100 and rolloverCap 50 the new balance is 110; with balance 80 it is 150.
\<close>

theorem resetMonthlyCredits_spec:
  assumes "findUnique uid (users d) = Some u"
  shows "\<exists>d' r u' t.
           resetMonthlyCredits now uid d = Inr (d', r)
         \<and> findUnique uid (users d') = Some u'
         \<and> User.monthlyCredits u' = TierConfig.monthlyCredits (getTierConfig (tier u))
         \<and> User.rolloverCap u' = TierConfig.rolloverCap (getTierConfig (tier u))
         \<and> ResetResult.rolledOverAmount r
              = min (max (creditsBalance u) 0) (User.rolloverCap u')
         \<and> creditsBalance u' = User.monthlyCredits u' + ResetResult.rolledOverAmount r
         \<and> ResetResult.newBalance r = creditsBalance u'
         \<and> ResetResult.previousBalance r = creditsBalance u
         \<and> creditsUsedThisMonth u' = 0
         \<and> lastCreditReset u' = now
         \<and> tier u' = tier u
         \<and> creditTransactions d' = creditTransactions d @ [t]
         \<and> CreditTransaction.userId t = uid
         \<and> amount t = User.monthlyCredits u'
         \<and> type t = Monthly_reset
         \<and> jobId t = None
         \<and> calculateRollover 10 100 50 = 110
         \<and> calculateRollover 80 100 50 = 150"
  using assms
  by (simp add: resetMonthlyCredits_def Let_def findUnique_updateWhere
        calculateRollover_def max.commute)

theorem resetMonthlyCredits_spec_witness:
  "findUnique ''u1'' (users (oneUserDb (starterUser 80 7) [])) = Some (starterUser 80 7)
   \<and> (\<exists>d' r. resetMonthlyCredits 1000 ''u1'' (oneUserDb (starterUser 80 7) []) = Inr (d', r)
         \<and> findUnique ''u1'' (users d') = Some ((starterUser 150 0)\<lparr>lastCreditReset := 1000\<rparr>)
         \<and> map amount (creditTransactions d') = [100])"
proof -
  have h: "findUnique ''u1'' (users (oneUserDb (starterUser 80 7) [])) = Some (starterUser 80 7)"
    by (simp add: findUnique_def)
  show ?thesis
    using h resetMonthlyCredits_spec [OF h, of 1000]
    by (auto simp: resetMonthlyCredits_def eval_defs)
qed

section \<open>Tier change\<close>

text \<open>
  C10. For an existing account and any tier, \<open>updateUserTier\<close> changes only the
  account's \<open>tier\<close>, \<open>monthlyCredits\<close> and \<open>rolloverCap\<close> and appends one \<open>tier_change\<close>
  transaction of amount zero; \<open>creditsBalance\<close>, \<open>creditsUsedThisMonth\<close> and
  \<open>lastCreditReset\<close> keep their values.
\<close>

theorem updateUserTier_frame:
  assumes "findUnique uid (users d) = Some u"
  shows "\<exists>d' u' t.
           updateUserTier uid newTier d = Inr d'
         \<and> findUnique uid (users d') = Some u'
         \<and> u' = u\<lparr>tier := newTier,
                   User.monthlyCredits := TierConfig.monthlyCredits (getTierConfig newTier),
                   User.rolloverCap := TierConfig.rolloverCap (getTierConfig newTier)\<rparr>
         \<and> creditsBalance u' = creditsBalance u
         \<and> creditsUsedThisMonth u' = creditsUsedThisMonth u
         \<and> lastCreditReset u' = lastCreditReset u
         \<and> creditTransactions d' = creditTransactions d @ [t]
         \<and> CreditTransaction.userId t = uid
         \<and> amount t = 0
         \<and> type t = Tier_change
         \<and> jobs d' = jobs d"
  using assms
  by (simp add: updateUserTier_def Let_def findUnique_updateWhere)

theorem updateUserTier_frame_witness:
  "findUnique ''u1'' (users (oneUserDb (starterUser 80 7) [])) = Some (starterUser 80 7)
   \<and> (\<exists>d'. updateUserTier ''u1'' Professional (oneUserDb (starterUser 80 7) []) = Inr d'
         \<and> findUnique ''u1'' (users d') =
             Some ((starterUser 80 7)\<lparr>tier := Professional, User.monthlyCredits := 400,
                                      User.rolloverCap := 200\<rparr>)
         \<and> map amount (creditTransactions d') = [0])"
proof -
  have h: "findUnique ''u1'' (users (oneUserDb (starterUser 80 7) [])) = Some (starterUser 80 7)"
    by (simp add: findUnique_def)
  show ?thesis
    using h updateUserTier_frame [OF h, of Professional]
    by (auto simp: updateUserTier_def eval_defs)
qed

section \<open>The ledger equation\<close>

lemma transactionSum_createTransaction [simp]:
  "transactionSum uid (createTransaction t d) =
     transactionSum uid d + (if CreditTransaction.userId t = uid then amount t else 0)"
  by (simp add: transactionSum_def)

lemma transactionSum_users_update [simp]:
  "transactionSum uid (d\<lparr>users := us\<rparr>) = transactionSum uid d"
  by (simp add: transactionSum_def)

lemma applyOp_balanced:
  assumes "ledgerBalanced uid d" and "resetKeepsAll uid kop d"
  shows "ledgerBalanced uid (applyOp kop d)"
proof (cases kop)
  case (Pair k op)
  show ?thesis
  proof (cases op)
    case (Reserve amt jid descr)
    with Pair assms show ?thesis
      by (auto simp: applyOp_def ledgerBalanced_def deductCredits_def Let_def
            findUnique_updateWhere split: option.splits)
  next
    case (RefundOp amt jid reason)
    with Pair assms show ?thesis
      by (auto simp: applyOp_def ledgerBalanced_def refundCredits_def Let_def
            findUnique_updateWhere split: option.splits)
  next
    case (PurchaseOp credits payment)
    with Pair assms show ?thesis
      by (auto simp: applyOp_def ledgerBalanced_def addAlaCarteCredits_def Let_def
            findUnique_updateWhere split: option.splits)
  next
    case (MonthlyReset now)
    with Pair assms show ?thesis
      by (auto simp: applyOp_def ledgerBalanced_def resetKeepsAll_def
            resetMonthlyCredits_def calculateRollover_def Let_def
            findUnique_updateWhere split: option.splits)
  next
    case (TierChange newTier)
    with Pair assms show ?thesis
      by (auto simp: applyOp_def ledgerBalanced_def updateUserTier_def Let_def
            findUnique_updateWhere split: option.splits)
  qed
qed

lemmas run_defs =
  applyOp_def deductCredits_def refundCredits_def addAlaCarteCredits_def
  resetMonthlyCredits_def updateUserTier_def transactionSum_def

text \<open>
  C4, as the code has it. Starting from a database in which the account's balance equals
  the sum of its transactions (a new account with balance zero and no transactions is
  one), the equation holds after every sequence of reservations, refunds, purchases,
  tier changes and monthly resets, on this and on other accounts, provided every monthly
  reset of the account finds a balance between zero and the rollover cap of its tier.
\<close>

theorem ledger_sum_invariant:
  assumes "ledgerBalanced uid d" and "resetsKeepAll uid ops d"
  shows "ledgerBalanced uid (runOps ops d)"
  using assms
proof (induction ops arbitrary: d)
  case Nil
  then show ?case by simp
next
  case (Cons kop ops)
  then show ?case by (simp add: applyOp_balanced)
qed

theorem ledger_sum_invariant_witness:
  "ledgerBalanced ''u1'' (oneUserDb (starterUser 0 0) [])
   \<and> resetsKeepAll ''u1''
        [(''u1'', MonthlyReset 1000), (''u1'', Reserve 60 ''j1'' ''x''),
         (''u1'', MonthlyReset 2000), (''u1'', RefundOp 60 ''j1'' ''y''),
         (''u1'', PurchaseOp 50 ''pi_1''), (''u1'', TierChange Professional)]
        (oneUserDb (starterUser 0 0) [])
   \<and> ledgerBalanced ''u1'' (runOps
        [(''u1'', MonthlyReset 1000), (''u1'', Reserve 60 ''j1'' ''x''),
         (''u1'', MonthlyReset 2000), (''u1'', RefundOp 60 ''j1'' ''y''),
         (''u1'', PurchaseOp 50 ''pi_1''), (''u1'', TierChange Professional)]
        (oneUserDb (starterUser 0 0) []))"
proof -
  have b: "ledgerBalanced ''u1'' (oneUserDb (starterUser 0 0) [])"
    by (simp add: ledgerBalanced_def findUnique_def transactionSum_def)
  have k: "resetsKeepAll ''u1''
        [(''u1'', MonthlyReset 1000), (''u1'', Reserve 60 ''j1'' ''x''),
         (''u1'', MonthlyReset 2000), (''u1'', RefundOp 60 ''j1'' ''y''),
         (''u1'', PurchaseOp 50 ''pi_1''), (''u1'', TierChange Professional)]
        (oneUserDb (starterUser 0 0) [])"
    by (simp add: resetKeepsAll_def run_defs eval_defs)
  show ?thesis
    using b k ledger_sum_invariant [OF b k] by simp
qed

text \<open>
  C4, as the claim states it. A new starter account (balance zero, no transactions) is
  reset, reserves 20 credits and is reset again a month later. The second reset finds a
  balance of 80, carries over 50 and records 100: the balance is 150 while the
  transactions add up to 180.
\<close>

theorem ledger_sum_counterexample:
  "creditsBalance (starterUser 0 0) = 0
   \<and> transactionSum ''u1'' (oneUserDb (starterUser 0 0) []) = 0
   \<and> map_option creditsBalance (findUnique ''u1'' (users (runOps
        [(''u1'', MonthlyReset 1000), (''u1'', Reserve 20 ''j1'' ''x''),
         (''u1'', MonthlyReset 2000)]
        (oneUserDb (starterUser 0 0) [])))) = Some 150
   \<and> transactionSum ''u1'' (runOps
        [(''u1'', MonthlyReset 1000), (''u1'', Reserve 20 ''j1'' ''x''),
         (''u1'', MonthlyReset 2000)]
        (oneUserDb (starterUser 0 0) [])) = 180
   \<and> \<not> ledgerBalanced ''u1'' (runOps
        [(''u1'', MonthlyReset 1000), (''u1'', Reserve 20 ''j1'' ''x''),
         (''u1'', MonthlyReset 2000)]
        (oneUserDb (starterUser 0 0) []))"
  by (simp add: ledgerBalanced_def run_defs eval_defs)


section \<open>Repeated resets\<close>

lemma updateWhere_row:
  "(i, x) \<in> set (updateWhere k f t) \<Longrightarrow> i = k \<Longrightarrow> \<exists>y. x = f y"
  by (auto simp: updateWhere_def split: if_splits)

lemma resetMonthlyCredits_lastCreditReset:
  assumes "resetMonthlyCredits now uid d = Inr (d1, r1)" and "(uid, x) \<in> set (users d1)"
  shows "lastCreditReset x = now"
  using assms
  by (auto simp: resetMonthlyCredits_def Let_def split: option.splits dest!: updateWhere_row)

text \<open>
  C8, as the code has it. \<open>resetMonthlyCredits\<close> has no guard of its own: called again on
  the account it has just reset, it grants again, setting the balance to
  \<open>monthlyCredits + min (max balance 0) rolloverCap\<close> and appending a second
  \<open>monthly_reset\<close> transaction. What keeps the scheduler from repeating a reset is its
  query: after a reset at time \<open>now\<close>, \<open>getUsersNeedingReset\<close> with a cutoff before \<open>now\<close>
  (a query made less than a month later) does not return the account.
\<close>

theorem reset_repeats_unless_unselected:
  assumes "findUnique uid (users d) = Some u"
    and "resetMonthlyCredits now uid d = Inr (d1, r1)"
    and "oneMonthAgo < now"
  shows "uid \<notin> set (getUsersNeedingReset oneMonthAgo d1)
       \<and> (\<exists>u1 d2 r2 u2 t1 t2.
             findUnique uid (users d1) = Some u1
           \<and> resetMonthlyCredits now' uid d1 = Inr (d2, r2)
           \<and> findUnique uid (users d2) = Some u2
           \<and> creditsBalance u2 = User.monthlyCredits u1
                + min (max (creditsBalance u1) 0) (User.rolloverCap u1)
           \<and> creditTransactions d2 = creditTransactions d @ [t1, t2]
           \<and> type t1 = Monthly_reset \<and> amount t1 = User.monthlyCredits u1
           \<and> type t2 = Monthly_reset \<and> amount t2 = User.monthlyCredits u1)"
proof
  show "uid \<notin> set (getUsersNeedingReset oneMonthAgo d1)"
    using assms(3) resetMonthlyCredits_lastCreditReset [OF assms(2)]
    by (auto simp: getUsersNeedingReset_def)
next
  show "\<exists>u1 d2 r2 u2 t1 t2.
             findUnique uid (users d1) = Some u1
           \<and> resetMonthlyCredits now' uid d1 = Inr (d2, r2)
           \<and> findUnique uid (users d2) = Some u2
           \<and> creditsBalance u2 = User.monthlyCredits u1
                + min (max (creditsBalance u1) 0) (User.rolloverCap u1)
           \<and> creditTransactions d2 = creditTransactions d @ [t1, t2]
           \<and> type t1 = Monthly_reset \<and> amount t1 = User.monthlyCredits u1
           \<and> type t2 = Monthly_reset \<and> amount t2 = User.monthlyCredits u1"
    using assms(1,2)
    by (auto simp: resetMonthlyCredits_def Let_def findUnique_updateWhere
          calculateRollover_def max.commute)
qed

theorem reset_repeats_unless_unselected_witness:
  "findUnique ''u1'' (users (oneUserDb (starterUser 0 0) [])) = Some (starterUser 0 0)
   \<and> (1000::int) < 5000
   \<and> (\<exists>d1 r1. resetMonthlyCredits 5000 ''u1'' (oneUserDb (starterUser 0 0) []) = Inr (d1, r1)
        \<and> getUsersNeedingReset 0 (oneUserDb (starterUser 0 0) []) = [''u1'']
        \<and> ''u1'' \<notin> set (getUsersNeedingReset 1000 d1))"
proof -
  have h: "findUnique ''u1'' (users (oneUserDb (starterUser 0 0) [])) = Some (starterUser 0 0)"
    by (simp add: findUnique_def)
  obtain d1 r1 where
    e: "resetMonthlyCredits 5000 ''u1'' (oneUserDb (starterUser 0 0) []) = Inr (d1, r1)"
    by (simp add: resetMonthlyCredits_def eval_defs)
  have c: "(1000::int) < 5000" by simp
  show ?thesis
    using h e reset_repeats_unless_unselected [OF h e c]
    by (simp add: getUsersNeedingReset_def)
qed

text \<open>
  C8, as the claim states it. A starter account with balance zero is reset at time 1000
  and again at time 2000, inside the same month: the first call brings the balance to
  100, the second to 150, and two \<open>monthly_reset\<close> transactions of 100 are recorded.
\<close>

theorem reset_twice_counterexample:
  "map_option creditsBalance (findUnique ''u1'' (users (runOps
        [(''u1'', MonthlyReset 1000)] (oneUserDb (starterUser 0 0) [])))) = Some 100
   \<and> map_option creditsBalance (findUnique ''u1'' (users (runOps
        [(''u1'', MonthlyReset 1000), (''u1'', MonthlyReset 2000)]
        (oneUserDb (starterUser 0 0) [])))) = Some 150
   \<and> map (\<lambda>t. (type t, amount t)) (creditTransactions (runOps
        [(''u1'', MonthlyReset 1000), (''u1'', MonthlyReset 2000)]
        (oneUserDb (starterUser 0 0) [])))
       = [(Monthly_reset, 100), (Monthly_reset, 100)]"
  by (simp add: run_defs eval_defs)

section \<open>Overlapping reservations\<close>

text \<open>One call scheduled three times in a row is \<open>deductCredits\<close>.\<close>

lemma deductStep_sequential:
  "runSchedule [0, 0, 0] ([(c, AtFindUnique)], d) =
     (case deductCredits (callUserId c) (callAmount c) (callJobId c) (callDescription c) d of
        Inl e \<Rightarrow> ([(c, Thrown e)], d)
      | Inr (d', r) \<Rightarrow> ([(c, Returned r)], d'))"
  by (auto simp: deductStep_def deductCredits_def Let_def findUnique_updateWhere
        split: option.splits)

text \<open>Calls on one account that do not overlap never reserve more than the account
  holds: with amounts above zero and a starting balance that is not negative, the
  amounts of the successful calls and the final balance add up to the starting balance.\<close>

lemma succeededAmounts_Cons:
  "succeededAmounts ((c, pt) # rs) =
     (case pt of
        Returned r \<Rightarrow> if DeductResult.success r then callAmount c # succeededAmounts rs
                      else succeededAmounts rs
      | _ \<Rightarrow> succeededAmounts rs)"
  by (simp add: succeededAmounts_def split: DeductPoint.splits)

lemma deductAll_no_overdraft:
  assumes "findUnique uid (users d) = Some u" and "0 \<le> creditsBalance u"
    and "\<forall>c \<in> set calls. callUserId c = uid \<and> 0 < callAmount c"
  shows "\<exists>u'. findUnique uid (users (snd (deductAll calls d))) = Some u'
           \<and> 0 \<le> creditsBalance u'
           \<and> sum_list (succeededAmounts (fst (deductAll calls d))) + creditsBalance u'
               = creditsBalance u"
  using assms
proof (induction calls arbitrary: d u)
  case Nil
  then show ?case by (simp add: succeededAmounts_def)
next
  case (Cons c cs)
  have c: "callUserId c = uid" "0 < callAmount c" using Cons.prems(3) by auto
  show ?case
  proof (cases "creditsBalance u < callAmount c")
    case True
    then have e: "deductCredits uid (callAmount c) (callJobId c) (callDescription c) d =
        Inr (d, \<lparr>DeductResult.success = False, newBalance = creditsBalance u,
                 insufficientCredits = True\<rparr>)"
      using Cons.prems(1) by (simp add: deductCredits_def)
    from Cons.IH [OF Cons.prems(1,2)] Cons.prems(3)
    obtain u' where "findUnique uid (users (snd (deductAll cs d))) = Some u'"
      "0 \<le> creditsBalance u'"
      "sum_list (succeededAmounts (fst (deductAll cs d))) + creditsBalance u' = creditsBalance u"
      by auto
    then show ?thesis
      using c e by (auto simp: succeededAmounts_Cons split: prod.splits)
  next
    case False
    define u1 where "u1 = u\<lparr>creditsBalance := creditsBalance u - callAmount c,
                           creditsUsedThisMonth := creditsUsedThisMonth u + callAmount c\<rparr>"
    obtain d1 where e: "deductCredits uid (callAmount c) (callJobId c) (callDescription c) d =
        Inr (d1, \<lparr>DeductResult.success = True, newBalance = creditsBalance u - callAmount c,
                  insufficientCredits = False\<rparr>)"
      and f: "findUnique uid (users d1) = Some u1"
      using Cons.prems(1) False
      by (simp add: deductCredits_def Let_def findUnique_updateWhere u1_def)
    have b: "0 \<le> creditsBalance u1" using False by (simp add: u1_def)
    from Cons.IH [OF f b] Cons.prems(3)
    obtain u' where "findUnique uid (users (snd (deductAll cs d1))) = Some u'"
      "0 \<le> creditsBalance u'"
      "sum_list (succeededAmounts (fst (deductAll cs d1))) + creditsBalance u' = creditsBalance u1"
      by auto
    then show ?thesis
      using c e by (auto simp: succeededAmounts_Cons u1_def split: prod.splits)
  qed
qed

text \<open>
  C2. Two calls of \<open>deductCredits\<close> for 60 credits each run against an account holding
  100, their database calls alternating: both read the balance 100, both pass the balance
  test, both write 40. Both report success, for 120 credits in all, more than the
  balance the account started with; the account ends at 40 with two \<open>usage\<close> transactions
  of 60.
\<close>

theorem concurrent_deduct_overdraft:
  "runSchedule [0, 1, 0, 1, 0, 1]
        ([(call60 ''j1'', AtFindUnique), (call60 ''j2'', AtFindUnique)],
         oneUserDb (starterUser 100 0) [])
   = ([(call60 ''j1'', Returned \<lparr>DeductResult.success = True, newBalance = 40,
                                  insufficientCredits = False\<rparr>),
       (call60 ''j2'', Returned \<lparr>DeductResult.success = True, newBalance = 40,
                                  insufficientCredits = False\<rparr>)],
      oneUserDb (starterUser 40 60)
        [\<lparr>CreditTransaction.userId = ''u1'', amount = - 60, type = Usage,
          description = ''x'', jobId = Some ''j1''\<rparr>,
         \<lparr>CreditTransaction.userId = ''u1'', amount = - 60, type = Usage,
          description = ''x'', jobId = Some ''j2''\<rparr>])
   \<and> sum_list (succeededAmounts (fst (runSchedule [0, 1, 0, 1, 0, 1]
        ([(call60 ''j1'', AtFindUnique), (call60 ''j2'', AtFindUnique)],
         oneUserDb (starterUser 100 0) [])))) = 120
   \<and> \<not> (120 \<le> creditsBalance (starterUser 100 0))"
  by (simp add: deductStep_def succeededAmounts_def eval_defs)

section \<open>Dispatch failure\<close>

lemma findUnique_append_new:
  "findUnique k t = None \<Longrightarrow> findUnique k (t @ [(k, v)]) = Some v"
  by (simp add: findUnique_def map_add_def split: option.splits)

text \<open>
  C7. A submission that passes authentication and validation, whose account covers the
  price, whose uploads succeed and whose job row is created, and whose queue dispatch
  then fails: the handler answers 500 with the dispatch error, the transaction log gains
  the \<open>usage\<close> transaction of the reservation followed by a \<open>refund\<close> transaction of the
  full reserved amount tagged with the job id, the job row has status \<open>failed\<close> and an
  error message, and the account's balance is what it was before the submission.
\<close>

theorem dispatch_failure_compensated:
  assumes "sessionUser req = Some uid"
    and "images req \<noteq> []" and "length (images req) \<le> 100"
    and "backgroundPromptField req = Some prompt" and "trim prompt \<noteq> []"
    and "findUnique uid (users d) = Some u"
    and "totalCredits = calculateBatchCredits env (length (images req))"
    and "hasEnoughCredits (creditsBalance u) totalCredits"
    and "jid = randomUUID env"
    and "uploadImages env jid 0 (images req) = Some urls"
    and "findUnique jid (jobs d) = None"
    and "\<not> addJob env jid uid prompt urls"
  shows "\<exists>d' u' j usage.
           POST env req d =
             (d', Response (ErrorBody ''Failed to queue job for processing'') 500)
         \<and> creditTransactions d' = creditTransactions d @
             [usage,
              \<lparr>CreditTransaction.userId = uid, amount = totalCredits, type = Refund,
                description = ''Credit refund: Failed to queue job for processing'',
                jobId = Some jid\<rparr>]
         \<and> CreditTransaction.userId usage = uid \<and> amount usage = - totalCredits
         \<and> type usage = Usage \<and> jobId usage = Some jid
         \<and> findUnique jid (jobs d') = Some j
         \<and> status j = Failed
         \<and> errorMessage j = Some ''Failed to queue job for processing''
         \<and> creditsReserved j = totalCredits
         \<and> findUnique uid (users d') = Some u'
         \<and> creditsBalance u' = creditsBalance u"
proof -
  have p: "prompt \<noteq> []" using assms(5) by (auto simp: trim_def)
  show ?thesis
    using assms p
    by (simp add: POST_def Let_def hasEnoughCredits_def deductCredits_def refundCredits_def
          createJob_def updateJob_def findUnique_updateWhere findUnique_append_new)
qed

theorem dispatch_failure_compensated_witness:
  "sessionUser twoImages = Some ''u1''
   \<and> images twoImages \<noteq> [] \<and> length (images twoImages) \<le> 100
   \<and> backgroundPromptField twoImages = Some ''beach'' \<and> trim ''beach'' \<noteq> []
   \<and> findUnique ''u1'' (users (oneUserDb (starterUser 100 0) [])) = Some (starterUser 100 0)
   \<and> hasEnoughCredits (creditsBalance (starterUser 100 0)) 25
   \<and> uploadImages queueDown ''j1'' 0 (images twoImages) = Some [''s3/j1_input_0.png'', ''s3/j1_input_1.b'']
   \<and> findUnique ''j1'' (jobs (oneUserDb (starterUser 100 0) [])) = None
   \<and> \<not> addJob queueDown ''j1'' ''u1'' ''beach'' [''s3/j1_input_0.png'', ''s3/j1_input_1.b'']
   \<and> (\<exists>d'. POST queueDown twoImages (oneUserDb (starterUser 100 0) []) =
               (d', Response (ErrorBody ''Failed to queue job for processing'') 500)
          \<and> map (\<lambda>t. (type t, amount t, jobId t)) (creditTransactions d')
               = [(Usage, - 25, Some ''j1''), (Refund, 25, Some ''j1'')]
          \<and> map_option status (findUnique ''j1'' (jobs d')) = Some Failed
          \<and> map_option creditsBalance (findUnique ''u1'' (users d')) = Some 100)"
proof -
  have a1: "sessionUser twoImages = Some ''u1''" by simp
  have a2: "images twoImages \<noteq> []" by simp
  have a3: "length (images twoImages) \<le> 100" by simp
  have a4: "backgroundPromptField twoImages = Some ''beach''" by simp
  have a5: "trim ''beach'' \<noteq> []" by (simp add: trim_def isWhiteSpace_def)
  have a6: "findUnique ''u1'' (users (oneUserDb (starterUser 100 0) [])) = Some (starterUser 100 0)"
    by (simp add: findUnique_def)
  have a7: "(25::int) = calculateBatchCredits queueDown (length (images twoImages))" by simp
  have a8: "hasEnoughCredits (creditsBalance (starterUser 100 0)) 25"
    by (simp add: hasEnoughCredits_def)
  have a9: "''j1'' = randomUUID queueDown" by simp
  have a10: "uploadImages queueDown ''j1'' 0 (images twoImages)
               = Some [''s3/j1_input_0.png'', ''s3/j1_input_1.b'']"
    by (simp add: extension_def toString_def digits.simps)
  have a11: "findUnique ''j1'' (jobs (oneUserDb (starterUser 100 0) [])) = None"
    by (simp add: findUnique_def)
  have a12: "\<not> addJob queueDown ''j1'' ''u1'' ''beach'' [''s3/j1_input_0.png'', ''s3/j1_input_1.b'']"
    by simp
  from dispatch_failure_compensated [OF a1 a2 a3 a4 a5 a6 a7 a8 a9 a10 a11 a12]
  obtain d' u' j usage where
    r: "POST queueDown twoImages (oneUserDb (starterUser 100 0) []) =
             (d', Response (ErrorBody ''Failed to queue job for processing'') 500)"
    and t: "creditTransactions d' = creditTransactions (oneUserDb (starterUser 100 0) []) @
             [usage,
              \<lparr>CreditTransaction.userId = ''u1'', amount = 25, type = Refund,
                description = ''Credit refund: Failed to queue job for processing'',
                jobId = Some ''j1''\<rparr>]"
    and u: "amount usage = - 25" "type usage = Usage" "jobId usage = Some ''j1''"
    and j: "findUnique ''j1'' (jobs d') = Some j" "status j = Failed"
    and b: "findUnique ''u1'' (users d') = Some u'"
           "creditsBalance u' = creditsBalance (starterUser 100 0)"
    by blast
  show ?thesis
    using a1 a2 a3 a4 a5 a6 a8 a10 a11 a12 r t u j b by simp
qed

end
